theory Spec2Isabelle
  imports Complex_Main "HOL-Library.Monad_Syntax"
begin

section \<open>Numbers, arrays and the data model\<close>

text \<open>
  The engine is \<^verbatim>\<open>src/strategies/weightedStrategy.ts\<close> (class WeightedStrategy) on top
  of the indicator library \<^verbatim>\<open>src/strategies/indicators.ts\<close>.

  In the engine a JavaScript \<^verbatim>\<open>number\<close> is modelled as a \<^typ>\<open>real\<close>: rounding,
  overflow, signed zero, NaN and the infinities of IEEE doubles are not part of that
  embedding, and the theorems about the engine are those that do not depend on them
  (the structure of the loop, the trade log, the accounting). Where the source divides by
  a quantity that can be zero (JavaScript then yields NaN or an infinity, HOL yields 0),
  the theorems either carry the hypothesis that excludes it or do not depend on the
  quotient. The value of the RSI, whose exact value a property is about, is modelled a
  second time with every operation rounded to a double (section ``The RSI in double
  arithmetic''). Counters, lengths and the loop index are \<^typ>\<open>nat\<close>;
  \<^verbatim>\<open>rsiPeriod\<close> is an \<^typ>\<open>int\<close> (the constructor does not restrict it).
\<close>

datatype signal = buy | sell | neutral

record IndicatorResult =
  ivalue :: real
  isignal :: signal
  iweight :: real

record indicators4 =
  rsi :: IndicatorResult
  macd :: IndicatorResult
  bollinger :: IndicatorResult
  volume :: IndicatorResult

datatype recommendation = rbuy | rsell | rneutral

record StrategyResult =
  totalSignal :: real
  recommend :: recommendation
  indicators :: indicators4

record MarketData =
  prices :: "real list"
  volumes :: "real list"
  timestamp :: int

text \<open>
  \<^verbatim>\<open>Array.prototype.slice\<close>: a negative bound counts from the end, and both bounds are
  clamped to the array.
\<close>

definition slice_index :: "nat \<Rightarrow> int \<Rightarrow> nat" where
  "slice_index len k = (if k < 0 then nat (max (int len + k) 0) else min (nat k) len)"

definition slice_from :: "int \<Rightarrow> 'a list \<Rightarrow> 'a list" where
  "slice_from start xs = drop (slice_index (length xs) start) xs"

definition slice :: "int \<Rightarrow> int \<Rightarrow> 'a list \<Rightarrow> 'a list" where
  "slice start end xs =
     take (slice_index (length xs) end - slice_index (length xs) start)
          (drop (slice_index (length xs) start) xs)"

section \<open>Indicator library\<close>

text \<open>\<^verbatim>\<open>arr.reduce((a, b) => a + b, 0) / arr.length\<close>\<close>

definition average :: "real list \<Rightarrow> real" where
  "average arr = foldl (\<lambda>a b. a + b) 0 arr / real (length arr)"

text \<open>
  \<^verbatim>\<open>calculateSimpleRSI\<close>: the loop over \<^verbatim>\<open>i = 1 .. prices.length - 1\<close> pushes one
  entry on \<^verbatim>\<open>gains\<close> and one on \<^verbatim>\<open>losses\<close> per step.
\<close>

definition rsi_push :: "real list \<Rightarrow> nat \<Rightarrow> real list \<times> real list \<Rightarrow> real list \<times> real list" where
  "rsi_push ps i gl =
     (let difference = ps ! i - ps ! (i - 1) in
      if difference \<ge> 0 then (fst gl @ [difference], snd gl @ [0])
      else (fst gl @ [0], snd gl @ [\<bar>difference\<bar>]))"

definition gains_losses :: "real list \<Rightarrow> real list \<times> real list" where
  "gains_losses ps = fold (rsi_push ps) [1..<length ps] ([], [])"

definition calculateSimpleRSI :: "real list \<Rightarrow> int \<Rightarrow> real" where
  "calculateSimpleRSI ps period =
     (let gains = fst (gains_losses ps);
          losses = snd (gains_losses ps);
          avgGain = average (slice_from (- period) gains);
          avgLoss = average (slice_from (- period) losses)
      in if avgLoss = 0 then 100
         else (let rs = avgGain / avgLoss in 100 - (100 / (1 + rs))))"

definition calculateEMA :: "real list \<Rightarrow> nat \<Rightarrow> real" where
  "calculateEMA ps period =
     (let multiplier = 2 / (real period + 1) in
      fold (\<lambda>i ema. (ps ! i - ema) * multiplier + ema) [period..<length ps]
           (average (slice 0 (int period) ps)))"

definition calculateSimpleMACD :: "real list \<Rightarrow> real" where
  "calculateSimpleMACD ps = calculateEMA ps 12 - calculateEMA ps 26"

definition calculateStandardDeviation :: "real list \<Rightarrow> real" where
  "calculateStandardDeviation vs =
     (let avg = average vs;
          squareDiffs = map (\<lambda>v. (v - avg) ^ 2) vs
      in sqrt (average squareDiffs))"

record bands =
  upper :: real
  lower :: real
  middle :: real

definition calculateSimpleBollinger :: "real list \<Rightarrow> bands" where
  "calculateSimpleBollinger ps =
     (let sma = average (slice_from (- 20) ps);
          stdDev = calculateStandardDeviation (slice_from (- 20) ps)
      in \<lparr> upper = sma + (2 * stdDev), lower = sma - (2 * stdDev), middle = sma \<rparr>)"

definition analyzeVolume :: "real list \<Rightarrow> real" where
  "analyzeVolume vs =
     (let recentVolume = average (slice_from (- 5) vs);
          historicalVolume = average (slice (- 20) (- 5) vs)
      in recentVolume / historicalVolume)"

definition calculateRSI :: "real list \<Rightarrow> int \<Rightarrow> IndicatorResult" where
  "calculateRSI ps period =
     (let rsiValue = calculateSimpleRSI ps period in
      \<lparr> ivalue = rsiValue,
        isignal = (if rsiValue > 70 then sell else if rsiValue < 30 then buy else neutral),
        iweight = 0.3 \<rparr>)"

definition calculateMACD :: "real list \<Rightarrow> IndicatorResult" where
  "calculateMACD ps =
     (let macdValue = calculateSimpleMACD ps in
      \<lparr> ivalue = macdValue,
        isignal = (if macdValue > 0 then buy else if macdValue < 0 then sell else neutral),
        iweight = 0.25 \<rparr>)"

definition calculateBollingerBands :: "real list \<Rightarrow> IndicatorResult" where
  "calculateBollingerBands ps =
     (let b = calculateSimpleBollinger ps;
          currentPrice = ps ! (length ps - 1)
      in \<lparr> ivalue = currentPrice,
           isignal = (if currentPrice > upper b then sell
                      else if currentPrice < lower b then buy else neutral),
           iweight = 0.25 \<rparr>)"

definition calculateVolumeSignal :: "real list \<Rightarrow> IndicatorResult" where
  "calculateVolumeSignal vs =
     (let volumeSignal = analyzeVolume vs in
      \<lparr> ivalue = volumeSignal,
        isignal = (if volumeSignal > 1.5 then buy
                   else if volumeSignal < 0.5 then sell else neutral),
        iweight = 0.2 \<rparr>)"

section \<open>The strategy: signal aggregation\<close>

datatype position_state = none | long

record strategy =
  rsiPeriod :: int
  signalThreshold :: real
  position :: position_state
  entryPrice :: real
  positionSize :: real

text \<open>The constructor, with its defaults \<^verbatim>\<open>rsiPeriod = 14, signalThreshold = 0.6\<close>.\<close>

definition WeightedStrategy :: "int \<Rightarrow> real \<Rightarrow> strategy" where
  "WeightedStrategy p t =
     \<lparr> rsiPeriod = p, signalThreshold = t, position = none, entryPrice = 0, positionSize = 0 \<rparr>"

definition signalValue :: "IndicatorResult \<Rightarrow> real" where
  "signalValue indicator =
     (if isignal indicator = buy then 1 else if isignal indicator = sell then - 1 else 0)"

definition analyze :: "'a strategy_scheme \<Rightarrow> MarketData \<Rightarrow> StrategyResult" where
  "analyze this d =
     (let r = calculateRSI (prices d) (rsiPeriod this);
          m = calculateMACD (prices d);
          b = calculateBollingerBands (prices d);
          v = calculateVolumeSignal (volumes d);
          signals = [r, m, b, v];
          total = fold (\<lambda>indicator acc. acc + signalValue indicator * iweight indicator) signals 0
      in \<lparr> totalSignal = total,
           recommend = (if total > signalThreshold this then rbuy
                        else if total < - signalThreshold this then rsell else rneutral),
           indicators = \<lparr> rsi = r, macd = m, bollinger = b, volume = v \<rparr> \<rparr>)"

section \<open>The backtest engine\<close>

text \<open>
  The argument \<^verbatim>\<open>data: any[]\<close> is checked at run time with \<^verbatim>\<open>Array.isArray\<close>, so the
  model keeps the values that are not arrays: \<open>Nullish\<close> is \<^verbatim>\<open>null\<close> or
  \<^verbatim>\<open>undefined\<close> (reading a property of it raises a TypeError), \<open>NonArray\<close> is any other
  value that is not an array. An element of the array is \<open>None\<close> when it is
  \<^verbatim>\<open>null\<close> or \<^verbatim>\<open>undefined\<close>, and otherwise a candle, of which the engine reads
  \<^verbatim>\<open>timestamp\<close>, and \<^verbatim>\<open>close\<close> and \<^verbatim>\<open>volume\<close> through \<^verbatim>\<open>parseFloat\<close>.
\<close>

record candle =
  c_timestamp :: int
  c_close :: real
  c_volume :: real

datatype js_data = Nullish | NonArray | Array "candle option list"

datatype error = TypeError | InvalidHistoricalData

datatype trade_type = Buy | Sell

record analysis =
  a_rsi :: real
  a_macd :: real
  a_bollingerPosition :: real
  a_volumeSignal :: real
  a_totalSignal :: real

record Trade =
  t_timestamp :: int
  t_type :: trade_type
  t_price :: real
  t_profit :: "real option"
  t_size :: real
  t_indicators :: "analysis option"

record BacktestProgress =
  p_currentCandle :: nat
  p_totalCandles :: nat
  p_trades :: "Trade list"
  p_equity :: "real list"
  p_initialCapital :: real
  p_currentCapital :: real
  p_isPaused :: bool
  p_lastAnalysis :: "analysis option"

record BacktestResult =
  r_totalTrades :: nat
  r_winningTrades :: nat
  r_losingTrades :: nat
  r_winRate :: real
  r_profit :: real
  r_maxDrawdown :: real
  r_sharpeRatio :: real
  r_trades :: "Trade list"
  r_equity :: "real list"

text \<open>
  The state of a run: the instance fields of the strategy, the local variables of
  \<^verbatim>\<open>backtest\<close>, and the snapshots passed to \<^verbatim>\<open>onProgress\<close> so far, as the
  callback received them.
\<close>

record run_state = strategy +
  trades :: "Trade list"
  equity :: "real list"
  currentCapital :: real
  maxCapital :: real
  maxDrawdown :: real
  winningTrades :: nat
  losingTrades :: nat
  emitted :: "BacktestProgress list"

text \<open>
  \<^verbatim>\<open>onProgress?.(p)\<close>: the flag says whether a callback was supplied. The callback is
  taken to return normally.
\<close>

definition onProgress :: "bool \<Rightarrow> BacktestProgress \<Rightarrow> run_state \<Rightarrow> run_state" where
  "onProgress cb p st = (if cb then st\<lparr>emitted := emitted st @ [p]\<rparr> else st)"

text \<open>
  \<^verbatim>\<open>while (this.isPaused) { await ...; onProgress?.({..., isPaused: true}) }\<close>. The flag
  is toggled by the caller between two polls; the number of polls before step \<open>i\<close>
  resumes is an input of the model.
\<close>

definition paused_progress :: "candle option list \<Rightarrow> real \<Rightarrow> nat \<Rightarrow> run_state \<Rightarrow> BacktestProgress" where
  "paused_progress data initialCapital i st =
     \<lparr> p_currentCandle = i, p_totalCandles = length data, p_trades = trades st,
       p_equity = equity st, p_initialCapital = initialCapital,
       p_currentCapital = currentCapital st, p_isPaused = True,
       p_lastAnalysis = None \<rparr>"

fun while_paused :: "nat \<Rightarrow> bool \<Rightarrow> candle option list \<Rightarrow> real \<Rightarrow> nat \<Rightarrow> run_state \<Rightarrow> run_state" where
  "while_paused 0 cb data initialCapital i st = st"
| "while_paused (Suc n) cb data initialCapital i st =
     while_paused n cb data initialCapital i
       (onProgress cb (paused_progress data initialCapital i st) st)"

text \<open>The trading logic of one step, \<^verbatim>\<open>if (this.position === 'none') ... else if ...\<close>.\<close>

definition execute :: "StrategyResult \<Rightarrow> real \<Rightarrow> int \<Rightarrow> analysis \<Rightarrow> run_state \<Rightarrow> run_state" where
  "execute result currentPrice ts lastAnalysis st =
     (if position st = none then
        (if totalSignal result > signalThreshold st then
           (let size = (currentCapital st * 0.95) / currentPrice in
            st\<lparr> positionSize := size, position := long, entryPrice := currentPrice,
                trades := trades st @
                  [\<lparr> t_timestamp = ts, t_type = Buy, t_price = currentPrice, t_profit = None,
                     t_size = size, t_indicators = Some lastAnalysis \<rparr>] \<rparr>)
         else st)
      else
        (if totalSignal result < - signalThreshold st then
           (let exitPrice = currentPrice;
                profit = (exitPrice - entryPrice st) * positionSize st;
                capital = currentCapital st + profit;
                peak = max (maxCapital st) capital;
                drawdown = (peak - capital) / peak
            in st\<lparr> currentCapital := capital,
                   winningTrades := (if profit > 0 then winningTrades st + 1 else winningTrades st),
                   losingTrades := (if profit > 0 then losingTrades st else losingTrades st + 1),
                   trades := trades st @
                     [\<lparr> t_timestamp = ts, t_type = Sell, t_price = exitPrice,
                        t_profit = Some profit, t_size = positionSize st,
                        t_indicators = Some lastAnalysis \<rparr>],
                   position := none, positionSize := 0,
                   maxCapital := peak,
                   maxDrawdown := max (maxDrawdown st) drawdown \<rparr>)
         else st))"

text \<open>
  The window of step \<open>i\<close>: \<^verbatim>\<open>data.slice(0, i + 1)\<close>, reduced to closing prices and
  volumes, with the timestamp of candle \<open>i\<close>.
\<close>

definition market_window :: "candle option list \<Rightarrow> nat \<Rightarrow> MarketData" where
  "market_window data i =
     (let window = slice 0 (int i + 1) data in
      \<lparr> prices = map (\<lambda>d. c_close (the d)) window,
        volumes = map (\<lambda>d. c_volume (the d)) window,
        timestamp = c_timestamp (the (data ! i)) \<rparr>)"

text \<open>The indicator values stored as \<^verbatim>\<open>lastAnalysis\<close>.\<close>

definition lastAnalysis :: "StrategyResult \<Rightarrow> analysis" where
  "lastAnalysis result =
     \<lparr> a_rsi = ivalue (rsi (indicators result)),
       a_macd = ivalue (macd (indicators result)),
       a_bollingerPosition = ivalue (bollinger (indicators result)),
       a_volumeSignal = ivalue (volume (indicators result)),
       a_totalSignal = totalSignal result \<rparr>"

definition step_progress :: "candle option list \<Rightarrow> real \<Rightarrow> nat \<Rightarrow> analysis \<Rightarrow> run_state \<Rightarrow> BacktestProgress" where
  "step_progress data initialCapital i la st =
     \<lparr> p_currentCandle = i, p_totalCandles = length data, p_trades = trades st,
       p_equity = equity st, p_initialCapital = initialCapital,
       p_currentCapital = currentCapital st, p_isPaused = False,
       p_lastAnalysis = Some la \<rparr>"

text \<open>
  The body of the \<^verbatim>\<open>try\<close> block after the pause loop. Mapping over the window reads
  \<^verbatim>\<open>d.close\<close> of every element, which raises on a \<^verbatim>\<open>null\<close> element before anything
  is changed.
\<close>

definition process_candle :: "bool \<Rightarrow> candle option list \<Rightarrow> real \<Rightarrow> nat \<Rightarrow> run_state \<Rightarrow> error + run_state" where
  "process_candle cb data initialCapital i st =
     (if None \<in> set (slice 0 (int i + 1) data) then Inl TypeError
      else
        (let w = market_window data i;
             result = analyze st w;
             currentPrice = prices w ! (length (prices w) - 1);
             st1 = execute result currentPrice (timestamp w) (lastAnalysis result) st;
             st2 = st1\<lparr>equity := equity st1 @ [currentCapital st1]\<rparr>
         in Inr (if i mod 50 = 0 \<or> length (trades st2) > 0
                 then onProgress cb
                        (step_progress data initialCapital i (lastAnalysis result) st2) st2
                 else st2)))"

text \<open>The state after the trading logic of step \<open>i\<close>, when the step does not raise.\<close>

definition traded :: "candle option list \<Rightarrow> nat \<Rightarrow> run_state \<Rightarrow> run_state" where
  "traded data i st =
     (let w = market_window data i; result = analyze st w
      in execute result (prices w ! (length (prices w) - 1)) (timestamp w)
           (lastAnalysis result) st)"

text \<open>One iteration of the \<^verbatim>\<open>for\<close> loop: \<^verbatim>\<open>catch\<close> logs the error and continues.\<close>

definition loop_body :: "bool \<Rightarrow> candle option list \<Rightarrow> real \<Rightarrow> (nat \<Rightarrow> nat) \<Rightarrow> nat \<Rightarrow> run_state \<Rightarrow> run_state" where
  "loop_body cb data initialCapital polls i st =
     (let st1 = while_paused (polls i) cb data initialCapital i st in
      case process_candle cb data initialCapital i st1 of
        Inl e \<Rightarrow> st1
      | Inr st2 \<Rightarrow> st2)"

definition minCandles :: "'a strategy_scheme \<Rightarrow> nat" where
  "minCandles this = nat (max (rsiPeriod this + 1) 26)"

definition initial_state :: "strategy \<Rightarrow> real \<Rightarrow> run_state" where
  "initial_state this initialCapital =
     \<lparr> rsiPeriod = rsiPeriod this, signalThreshold = signalThreshold this,
       position = position this, entryPrice = entryPrice this,
       positionSize = positionSize this,
       trades = [], equity = [initialCapital], currentCapital = initialCapital,
       maxCapital = initialCapital, maxDrawdown = 0, winningTrades = 0, losingTrades = 0,
       emitted = [] \<rparr>"

definition run_loop :: "strategy \<Rightarrow> candle option list \<Rightarrow> real \<Rightarrow> bool \<Rightarrow> (nat \<Rightarrow> nat) \<Rightarrow> nat \<Rightarrow> run_state" where
  "run_loop this data initialCapital cb polls n =
     fold (loop_body cb data initialCapital polls) [minCandles this..<n]
          (initial_state this initialCapital)"

text \<open>The Sharpe ratio of the equity curve, as computed after the loop.\<close>

definition returns_of :: "real list \<Rightarrow> real list" where
  "returns_of eq =
     map (\<lambda>i. if i = 0 then 0 else (eq ! i - eq ! (i - 1)) / eq ! (i - 1)) [0..<length eq]"

definition sharpe :: "real list \<Rightarrow> real" where
  "sharpe eq =
     (let returns = returns_of eq;
          averageReturn = foldl (\<lambda>a b. a + b) 0 returns / real (length returns);
          stdDev = sqrt (foldl (\<lambda>a b. a + (b - averageReturn) ^ 2) 0 returns
                         / real (length returns))
      in if stdDev = 0 then 0 else (averageReturn / stdDev) * sqrt 252)"

definition summary :: "real \<Rightarrow> run_state \<Rightarrow> BacktestResult" where
  "summary initialCapital st =
     (let totalTrades = winningTrades st + losingTrades st;
          winRate = (if totalTrades > 0
                     then (real (winningTrades st) / real totalTrades) * 100 else 0);
          profit = currentCapital st - initialCapital
      in \<lparr> r_totalTrades = totalTrades, r_winningTrades = winningTrades st,
           r_losingTrades = losingTrades st, r_winRate = winRate, r_profit = profit,
           r_maxDrawdown = maxDrawdown st * 100, r_sharpeRatio = sharpe (equity st),
           r_trades = trades st, r_equity = equity st \<rparr>)"

text \<open>
  \<^verbatim>\<open>backtest\<close> returns the instance as the run leaves it, the rejection or the result, and
  the snapshots the callback received. The first statement logs \<^verbatim>\<open>data.length\<close>,
  before the guard. The other log statements and the yield every 100 steps change nothing
  and are left out.
\<close>

record outcome =
  left :: strategy
  returned :: "error + BacktestResult"
  progress :: "BacktestProgress list"

definition backtest :: "strategy \<Rightarrow> js_data \<Rightarrow> real \<Rightarrow> bool \<Rightarrow> (nat \<Rightarrow> nat) \<Rightarrow> outcome" where
  "backtest this data initialCapital cb polls =
     (case data of
        Nullish \<Rightarrow> \<lparr> left = this, returned = Inl TypeError, progress = [] \<rparr>
      | NonArray \<Rightarrow> \<lparr> left = this, returned = Inl InvalidHistoricalData, progress = [] \<rparr>
      | Array cs \<Rightarrow>
          if length cs = 0
          then \<lparr> left = this, returned = Inl InvalidHistoricalData, progress = [] \<rparr>
          else (let st = run_loop this cs initialCapital cb polls (length cs)
                in \<lparr> left = this\<lparr> position := position st, entryPrice := entryPrice st,
                                       positionSize := positionSize st \<rparr>,
                     returned = Inr (summary initialCapital st),
                     progress = emitted st \<rparr>))"

section \<open>The RSI in double arithmetic\<close>

text \<open>
  A double has 53 significant bits and an exponent from -1022 to 1023. The operations
  \<^verbatim>\<open>+\<close>, \<^verbatim>\<open>-\<close> and \<^verbatim>\<open>/\<close> return the double nearest to the exact result, a tie going
  to the even significand. \<open>round_even\<close> is that rounding to an integer, \<open>ulp x\<close> the
  spacing of the doubles around \<open>x\<close> (constant below \<open>2 powr - 1022\<close>, where they are
  subnormal), \<open>nearest x\<close> the rounded value.
\<close>

definition round_even :: "real \<Rightarrow> int" where
  "round_even y =
     (let f = \<lfloor>y\<rfloor>; d = y - of_int f
      in if d < 1 / 2 then f else if d > 1 / 2 then f + 1 else if even f then f else f + 1)"

definition exponent :: "real \<Rightarrow> int" where
  "exponent x = max \<lfloor>log 2 \<bar>x\<bar>\<rfloor> (- 1022)"

definition ulp :: "real \<Rightarrow> real" where
  "ulp x = 2 powr of_int (exponent x - 52)"

definition nearest :: "real \<Rightarrow> real" where
  "nearest x = (if x = 0 then 0 else ulp x * of_int (round_even (x / ulp x)))"

text \<open>
  A result of magnitude \<open>2 ^ 1024\<close> or more is an infinity in the source, and a division
  by zero is an infinity or NaN: both are \<open>None\<close> here, and so is everything computed
  from them.
\<close>

definition fl :: "real \<Rightarrow> real option" where
  "fl x = (if \<bar>nearest x\<bar> < 2 ^ 1024 then Some (nearest x) else None)"











section \<open>Notions used to state the properties\<close>

text \<open>A trade log alternates when its types are \<open>e\<close>, the other type, \<open>e\<close>, ...\<close>

fun other :: "trade_type \<Rightarrow> trade_type" where
  "other Buy = Sell"
| "other Sell = Buy"

fun alternates :: "trade_type \<Rightarrow> trade_type list \<Rightarrow> bool" where
  "alternates e [] = True"
| "alternates e (t # ts) = (t = e \<and> alternates (other e) ts)"

definition sells :: "Trade list \<Rightarrow> Trade list" where
  "sells ts = filter (\<lambda>t. t_type t = Sell) ts"

text \<open>The profit a trade log has realised: a buy carries no profit.\<close>

definition realised :: "Trade list \<Rightarrow> real" where
  "realised ts = sum_list (map (\<lambda>t. case t_profit t of None \<Rightarrow> 0 | Some p \<Rightarrow> p) ts)"

text \<open>
  The per-step returns of an equity curve, \<open>(equity[i] - equity[i-1]) / equity[i-1]\<close> for
  \<open>i \<ge> 1\<close>, and the mean and the population standard deviation of a sequence.
\<close>

definition step_returns :: "real list \<Rightarrow> real list" where
  "step_returns eq = map (\<lambda>i. (eq ! i - eq ! (i - 1)) / eq ! (i - 1)) [1..<length eq]"

definition mean :: "real list \<Rightarrow> real" where
  "mean xs = sum_list xs / real (length xs)"

definition population_sd :: "real list \<Rightarrow> real" where
  "population_sd xs = sqrt (sum_list (map (\<lambda>x. (x - mean xs) ^ 2) xs) / real (length xs))"

definition annualised :: "real list \<Rightarrow> real" where
  "annualised rs = (if population_sd rs = 0 then 0 else mean rs / population_sd rs * sqrt 252)"

text \<open>
  The position invariant of a run started flat: the log alternates, beginning with a buy,
  and the engine is long exactly when the last trade is a buy.
\<close>

definition flat_or_long :: "run_state \<Rightarrow> bool" where
  "flat_or_long st =
     (alternates Buy (map t_type (trades st))
      \<and> (position st = long \<longleftrightarrow> odd (length (trades st))))"

text \<open>
  The accounting invariant: closed trades are the sells of the log, and the capital is the
  initial capital plus the realised profit.
\<close>

definition accounted :: "real \<Rightarrow> run_state \<Rightarrow> bool" where
  "accounted cap st =
     (winningTrades st + losingTrades st = length (sells (trades st))
      \<and> currentCapital st = cap + realised (trades st))"

section \<open>Three candle series\<close>

text \<open>
  Hourly candles with volume 1000: 26 closes at 101 and a close at 100; the same followed
  by a close at 110; and 27 closes at 110.
\<close>

definition candle_at :: "nat \<Rightarrow> real \<Rightarrow> candle option" where
  "candle_at i p = Some \<lparr> c_timestamp = 3600000 * int i, c_close = p, c_volume = 1000 \<rparr>"

definition dip :: "candle option list" where
  "dip = map (\<lambda>i. candle_at i (if i < 26 then 101 else 100)) [0..<27]"

definition dip_rally :: "candle option list" where
  "dip_rally = map (\<lambda>i. candle_at i (if i < 26 then 101 else if i = 26 then 100 else 110)) [0..<28]"

definition plateau :: "candle option list" where
  "plateau = map (\<lambda>i. candle_at i 110) [0..<27]"

text \<open>
  A strategy with \<^verbatim>\<open>rsiPeriod = 14\<close> and \<^verbatim>\<open>signalThreshold = 0.25\<close> buys at the dip
  and sells at the rally; these are the two trades.
\<close>

definition quarter :: strategy where
  "quarter = WeightedStrategy 14 (1 / 4)"

definition buy_at_dip :: Trade where
  "buy_at_dip =
     \<lparr> t_timestamp = 93600000, t_type = Buy, t_price = 100, t_profit = None,
       t_size = 19 / 2,
       t_indicators = Some \<lparr> a_rsi = 0, a_macd = - (28 / 351), a_bollingerPosition = 100,
                              a_volumeSignal = 1, a_totalSignal = 3 / 10 \<rparr> \<rparr>"

definition sell_at_rally :: Trade where
  "sell_at_rally =
     \<lparr> t_timestamp = 97200000, t_type = Sell, t_price = 110, t_profit = Some 95,
       t_size = 19 / 2,
       t_indicators = Some \<lparr> a_rsi = 1000 / 11, a_macd = 80864 / 123201,
                              a_bollingerPosition = 110, a_volumeSignal = 1,
                              a_totalSignal = - (3 / 10) \<rparr> \<rparr>"

text \<open>The effect of the buy at the dip on a state.\<close>

definition opened :: "run_state \<Rightarrow> run_state" where
  "opened st = st\<lparr> positionSize := 19 / 2, position := long, entryPrice := 100,
                    trades := trades st @ [buy_at_dip] \<rparr>"

text \<open>A caller that never pauses, and the result of the run over the dip and the rally.\<close>

definition never_paused :: "nat \<Rightarrow> nat" where
  "never_paused i = 0"

definition dip_rally_result :: BacktestResult where
  "dip_rally_result =
     summary 1000 (run_loop quarter dip_rally 1000 False never_paused (length dip_rally))"

text \<open>The instance a run over the dip leaves behind: long, with the entry at 100.\<close>

definition stale :: strategy where
  "stale = quarter\<lparr> position := long, entryPrice := 100, positionSize := 19 / 2 \<rparr>"

section \<open>Lemmas about the engine\<close>

subsection \<open>Arrays\<close>

lemma slice_prefix: "slice 0 (int i + 1) xs = take (Suc i) xs"
  by (cases "Suc i \<le> length xs") (simp_all add: slice_def slice_index_def nat_add_distrib min_def)


lemma foldl_plus_sum: "foldl (\<lambda>a b. a + b) a xs = a + sum_list (xs::real list)"
  by (induction xs arbitrary: a) auto

lemma average_sum: "average xs = sum_list xs / real (length xs)"
  by (simp add: average_def foldl_plus_sum)

subsection \<open>The pause loop\<close>

lemma while_paused_fields:
  "trades (while_paused n cb data cap i st) = trades st"
  "equity (while_paused n cb data cap i st) = equity st"
  "currentCapital (while_paused n cb data cap i st) = currentCapital st"
  "maxCapital (while_paused n cb data cap i st) = maxCapital st"
  "maxDrawdown (while_paused n cb data cap i st) = maxDrawdown st"
  "winningTrades (while_paused n cb data cap i st) = winningTrades st"
  "losingTrades (while_paused n cb data cap i st) = losingTrades st"
  "position (while_paused n cb data cap i st) = position st"
  "entryPrice (while_paused n cb data cap i st) = entryPrice st"
  "positionSize (while_paused n cb data cap i st) = positionSize st"
  "rsiPeriod (while_paused n cb data cap i st) = rsiPeriod st"
  "signalThreshold (while_paused n cb data cap i st) = signalThreshold st"
  by (induction n arbitrary: st; simp add: onProgress_def)+

lemma paused_progress_emit:
  "paused_progress data cap i (onProgress cb p st) = paused_progress data cap i st"
  by (simp add: paused_progress_def onProgress_def)

lemma while_paused_emitted:
  "emitted (while_paused n cb data cap i st) =
     emitted st @ (if cb then replicate n (paused_progress data cap i st) else [])"
proof (induction n arbitrary: st)
  case 0
  then show ?case by simp
next
  case (Suc n)
  show ?case
    by (simp add: Suc paused_progress_emit replicate_append_same) (simp add: onProgress_def)
qed

subsection \<open>One step\<close>

lemma analyze_cong:
  "rsiPeriod a = rsiPeriod b \<Longrightarrow> signalThreshold a = signalThreshold b \<Longrightarrow>
   analyze a w = analyze b w"
  by (simp add: analyze_def Let_def)

lemma process_candle_raises:
  "None \<in> set (take (Suc i) data) \<Longrightarrow> process_candle cb data cap i st = Inl TypeError"
  by (simp add: process_candle_def slice_prefix)

lemma process_candle_returns:
  assumes "None \<notin> set (take (Suc i) data)"
  shows "process_candle cb data cap i st =
    Inr (let st1 = traded data i st;
             st2 = st1\<lparr>equity := equity st1 @ [currentCapital st1]\<rparr>
         in if i mod 50 = 0 \<or> trades st2 \<noteq> []
            then onProgress cb
                   (step_progress data cap i (lastAnalysis (analyze st (market_window data i))) st2)
                   st2
            else st2)"
  using assms by (simp add: process_candle_def slice_prefix traded_def Let_def)

lemma execute_trades:
  "trades (execute r p ts la st) = trades st
   \<or> (position st = none \<and> totalSignal r > signalThreshold st
      \<and> (\<exists>t. trades (execute r p ts la st) = trades st @ [t] \<and> t_type t = Buy
              \<and> t_profit t = None)
      \<and> position (execute r p ts la st) = long
      \<and> currentCapital (execute r p ts la st) = currentCapital st
      \<and> winningTrades (execute r p ts la st) = winningTrades st
      \<and> losingTrades (execute r p ts la st) = losingTrades st)
   \<or> (position st = long \<and> totalSignal r < - signalThreshold st
      \<and> (\<exists>t. trades (execute r p ts la st) = trades st @ [t] \<and> t_type t = Sell
              \<and> t_profit t = Some ((p - entryPrice st) * positionSize st))
      \<and> position (execute r p ts la st) = none
      \<and> currentCapital (execute r p ts la st)
          = currentCapital st + (p - entryPrice st) * positionSize st
      \<and> winningTrades (execute r p ts la st) + losingTrades (execute r p ts la st)
          = Suc (winningTrades st + losingTrades st))"
  by (cases "position st") (simp_all add: execute_def Let_def)

lemma execute_idle:
  "trades (execute r p ts la st) = trades st \<Longrightarrow> execute r p ts la st = st"
  by (cases "position st") (simp_all add: execute_def Let_def split: if_splits)

lemma execute_config:
  "rsiPeriod (execute r p ts la st) = rsiPeriod st"
  "signalThreshold (execute r p ts la st) = signalThreshold st"
  "equity (execute r p ts la st) = equity st"
  "emitted (execute r p ts la st) = emitted st"
  by (simp_all add: execute_def Let_def)

lemma onProgress_eq:
  "onProgress cb p st = st\<lparr>emitted := emitted st @ (if cb then [p] else [])\<rparr>"
  by (simp add: onProgress_def)

lemma while_paused_eq:
  "while_paused n cb data cap i st =
     st\<lparr>emitted := emitted st @ (if cb then replicate n (paused_progress data cap i st) else [])\<rparr>"
proof (induction n arbitrary: st)
  case 0
  show ?case by simp
next
  case (Suc n)
  show ?case
    by (simp add: Suc onProgress_eq paused_progress_def replicate_append_same)
qed

lemma traded_emitted:
  "traded data i (st\<lparr>emitted := e\<rparr>) = (traded data i st)\<lparr>emitted := e\<rparr>"
  by (simp add: traded_def execute_def Let_def analyze_def)

lemma analyze_emitted: "analyze (st\<lparr>emitted := e\<rparr>) w = analyze st w"
  by (simp add: analyze_def Let_def)

lemma loop_body_raises:
  assumes "None \<in> set (take (Suc i) data)"
  shows "loop_body cb data cap polls i st =
     st\<lparr>emitted := emitted st @
          (if cb then replicate (polls i) (paused_progress data cap i st) else [])\<rparr>"
  using assms by (simp add: loop_body_def process_candle_raises while_paused_eq)

lemma loop_body_returns:
  assumes "None \<notin> set (take (Suc i) data)"
  shows "loop_body cb data cap polls i st =
     (let st1 = traded data i st;
          st2 = st1\<lparr>equity := equity st1 @ [currentCapital st1]\<rparr>
      in st2\<lparr>emitted := emitted st
            @ (if cb then replicate (polls i) (paused_progress data cap i st) else [])
            @ (if cb \<and> (i mod 50 = 0 \<or> trades st2 \<noteq> [])
               then [step_progress data cap i (lastAnalysis (analyze st (market_window data i))) st2]
               else [])\<rparr>)"
  using assms
  by (simp add: loop_body_def process_candle_returns while_paused_eq traded_emitted
      analyze_emitted onProgress_eq step_progress_def Let_def)

lemma current_price:
  "i < length data \<Longrightarrow>
   prices (market_window data i) ! (length (prices (market_window data i)) - 1)
     = c_close (the (data ! i))"
proof -
  assume i: "i < length data"
  then have len: "length (take (Suc i) data) = Suc i"
    by (simp add: min_absorb2 Suc_leI)
  show ?thesis
    using i by (simp add: market_window_def slice_prefix Let_def len del: length_take)
qed

lemma traded_cases:
  assumes "st' = traded data i st" and "p = prices (market_window data i) ! (length (prices (market_window data i)) - 1)"
  shows "st' = st
   \<or> (position st = none
      \<and> (\<exists>t. trades st' = trades st @ [t] \<and> t_type t = Buy \<and> t_profit t = None)
      \<and> position st' = long
      \<and> currentCapital st' = currentCapital st
      \<and> winningTrades st' = winningTrades st
      \<and> losingTrades st' = losingTrades st)
   \<or> (position st = long
      \<and> (\<exists>t. trades st' = trades st @ [t] \<and> t_type t = Sell
              \<and> t_profit t = Some ((p - entryPrice st) * positionSize st))
      \<and> position st' = none
      \<and> currentCapital st' = currentCapital st + (p - entryPrice st) * positionSize st
      \<and> winningTrades st' + losingTrades st' = Suc (winningTrades st + losingTrades st))"
proof -
  let ?w = "market_window data i"
  let ?r = "analyze st ?w"
  have e: "st' = execute ?r p (timestamp ?w) (lastAnalysis ?r) st"
    using assms by (simp add: traded_def Let_def)
  from execute_trades [of ?r p "timestamp ?w" "lastAnalysis ?r" st] execute_idle [of ?r p "timestamp ?w" "lastAnalysis ?r" st]
  show ?thesis unfolding e by blast
qed

lemma traded_frame:
  "rsiPeriod (traded data i st) = rsiPeriod st"
  "signalThreshold (traded data i st) = signalThreshold st"
  "equity (traded data i st) = equity st"
  "emitted (traded data i st) = emitted st"
  by (simp_all add: traded_def Let_def execute_config)

text \<open>Every iteration: the step idles (or raises), buys while flat, or sells while long.\<close>

lemma loop_body_cases:
  assumes "st' = loop_body cb data cap polls i st" and "i < length data"
  shows "(trades st' = trades st \<and> position st' = position st
          \<and> currentCapital st' = currentCapital st
          \<and> winningTrades st' = winningTrades st \<and> losingTrades st' = losingTrades st)
   \<or> (position st = none
      \<and> (\<exists>t. trades st' = trades st @ [t] \<and> t_type t = Buy \<and> t_profit t = None)
      \<and> position st' = long
      \<and> currentCapital st' = currentCapital st
      \<and> winningTrades st' = winningTrades st
      \<and> losingTrades st' = losingTrades st)
   \<or> (position st = long
      \<and> (\<exists>t. trades st' = trades st @ [t] \<and> t_type t = Sell
              \<and> t_profit t = Some ((c_close (the (data ! i)) - entryPrice st) * positionSize st))
      \<and> position st' = none
      \<and> currentCapital st'
           = currentCapital st + (c_close (the (data ! i)) - entryPrice st) * positionSize st
      \<and> winningTrades st' + losingTrades st' = Suc (winningTrades st + losingTrades st))"
proof (cases "None \<in> set (take (Suc i) data)")
  case True
  then show ?thesis using assms(1) by (simp add: loop_body_raises)
next
  case False
  define t where "t = traded data i st"
  have f: "trades st' = trades t" "position st' = position t"
    "currentCapital st' = currentCapital t" "winningTrades st' = winningTrades t"
    "losingTrades st' = losingTrades t"
    using assms(1) False by (simp_all add: loop_body_returns Let_def t_def)
  from traded_cases [OF t_def refl] show ?thesis
    unfolding f current_price [OF assms(2)] by auto
qed

subsection \<open>The loop\<close>

lemma run_loop_start:
  "n \<le> minCandles this \<Longrightarrow> run_loop this data cap cb polls n = initial_state this cap"
  by (simp add: run_loop_def)

lemma run_loop_Suc:
  "minCandles this \<le> n \<Longrightarrow>
   run_loop this data cap cb polls (Suc n) =
     loop_body cb data cap polls n (run_loop this data cap cb polls n)"
  by (simp add: run_loop_def)

lemma run_loop_induct [consumes 1, case_names start step]:
  assumes "n \<le> N"
    and "P (initial_state this cap)"
    and "\<And>i st. minCandles this \<le> i \<Longrightarrow> i < N \<Longrightarrow> P st \<Longrightarrow> P (loop_body cb data cap polls i st)"
  shows "P (run_loop this data cap cb polls n)"
  using assms(1)
proof (induction n)
  case 0
  show ?case by (simp add: run_loop_start assms(2))
next
  case (Suc n)
  show ?case
  proof (cases "minCandles this \<le> n")
    case True
    with Suc assms(3) show ?thesis by (simp add: run_loop_Suc)
  next
    case False
    then show ?thesis by (simp add: run_loop_start assms(2))
  qed
qed

lemma alternates_snoc:
  "alternates e (ts @ [t]) = (alternates e ts \<and> t = (if even (length ts) then e else other e))"
proof (induction ts arbitrary: e)
  case Nil
  show ?case by simp
next
  case (Cons a ts)
  show ?case by (cases e) (auto simp: Cons)
qed

lemma alternates_nth:
  "alternates e ts \<Longrightarrow> k < length ts \<Longrightarrow> ts ! k = (if even k then e else other e)"
proof (induction ts arbitrary: e k)
  case Nil
  then show ?case by simp
next
  case (Cons a ts)
  show ?case
  proof (cases k)
    case 0
    with Cons.prems show ?thesis by simp
  next
    case (Suc j)
    with Cons.prems Cons.IH [of "other e" j] show ?thesis by (cases e) auto
  qed
qed


lemma flat_or_long_step:
  assumes "flat_or_long st" and "i < length data"
  shows "flat_or_long (loop_body cb data cap polls i st)"
proof -
  have p: "position st = none \<longleftrightarrow> position st \<noteq> long" by (cases "position st") auto
  from loop_body_cases [OF refl assms(2), of cb cap polls st] assms(1) show ?thesis
    unfolding flat_or_long_def p
    by (elim disjE conjE exE) (simp_all add: alternates_snoc)
qed

lemma flat_or_long_run:
  assumes "position this = none" and "n \<le> length data"
  shows "flat_or_long (run_loop this data cap cb polls n)"
  using assms(2)
proof (induction rule: run_loop_induct)
  case start
  show ?case using assms(1) by (simp add: flat_or_long_def initial_state_def)
next
  case (step i st)
  then show ?case by (simp add: flat_or_long_step)
qed


lemma accounted_step:
  assumes "accounted c st" and "i < length data"
  shows "accounted c (loop_body cb data cap polls i st)"
  using loop_body_cases [OF refl assms(2), of cb cap polls st] assms(1)
  unfolding accounted_def
  by (elim disjE conjE exE) (simp_all add: sells_def realised_def)

lemma accounted_run:
  assumes "n \<le> length data"
  shows "accounted cap (run_loop this data cap cb polls n)"
  using assms
proof (induction rule: run_loop_induct)
  case start
  show ?case by (simp add: accounted_def initial_state_def sells_def realised_def)
next
  case (step i st)
  then show ?case by (simp add: accounted_step)
qed

lemma loop_body_equity:
  "equity (loop_body cb data cap polls i st) =
     (if None \<in> set (take (Suc i) data) then equity st
      else equity st @ [currentCapital (loop_body cb data cap polls i st)])"
  by (simp add: loop_body_raises loop_body_returns Let_def traded_frame)

lemma equity_head_run:
  assumes "n \<le> length data"
  shows "equity (run_loop this data cap cb polls n) \<noteq> []
         \<and> equity (run_loop this data cap cb polls n) ! 0 = cap"
  using assms
proof (induction rule: run_loop_induct)
  case start
  show ?case by (simp add: initial_state_def)
next
  case (step i st)
  then show ?case by (simp add: loop_body_equity nth_append)
qed

lemma equity_length_run:
  assumes "None \<notin> set data" and "n \<le> length data"
  shows "length (equity (run_loop this data cap cb polls n)) = 1 + (n - minCandles this)"
  using assms(2)
proof (induction n)
  case 0
  show ?case by (simp add: run_loop_start initial_state_def)
next
  case (Suc n)
  have ok: "None \<notin> set (take (Suc n) data)"
    using assms(1) by (meson in_set_takeD)
  show ?case
  proof (cases "minCandles this \<le> n")
    case True
    with Suc ok show ?thesis
      by (simp add: run_loop_Suc loop_body_equity Suc_diff_le)
  next
    case False
    then show ?thesis by (simp add: run_loop_start initial_state_def)
  qed
qed

section \<open>The indicators on the three series\<close>

lemmas unroll = Let_def upt_rec eval_nat_numeral nth_append slice_def slice_from_def slice_index_def average_def

lemma rsi_dip: "calculateSimpleRSI (replicate 26 101 @ [100]) 14 = 0"
  by (simp add: calculateSimpleRSI_def gains_losses_def rsi_push_def unroll)

lemma macd_dip: "calculateSimpleMACD (replicate 26 101 @ [100]) = - (28 / 351)"
  by (simp add: calculateSimpleMACD_def calculateEMA_def unroll)

lemma bands_dip:
  "calculateSimpleBollinger (replicate 26 101 @ [100])
     = \<lparr> upper = 2019 / 20 + 2 * sqrt (19 / 400), lower = 2019 / 20 - 2 * sqrt (19 / 400),
         middle = 2019 / 20 \<rparr>"
  by (simp add: calculateSimpleBollinger_def calculateStandardDeviation_def unroll power2_eq_square)

lemma volume_flat27: "analyzeVolume (replicate 27 1000) = 1"
  by (simp add: analyzeVolume_def unroll)

lemma sqrt_dip:
  "\<not> 100 > 2019 / 20 + 2 * sqrt (19 / 400)" "100 < 2019 / 20 - 2 * sqrt (19 / 400)"
proof -
  have lo: "0 \<le> sqrt (19 / 400)"
    by simp
  have hi: "sqrt (19 / 400) < 1 / 4"
    by (rule real_less_lsqrt; simp add: power2_eq_square)
  show "\<not> 100 > 2019 / 20 + 2 * sqrt (19 / 400)"
    using lo by linarith
  show "100 < 2019 / 20 - 2 * sqrt (19 / 400)"
    using hi by linarith
qed

lemma rsi_rally: "calculateSimpleRSI (replicate 26 101 @ [100, 110]) 14 = 1000 / 11"
  by (simp add: calculateSimpleRSI_def gains_losses_def rsi_push_def unroll)

lemma macd_rally: "calculateSimpleMACD (replicate 26 101 @ [100, 110]) = 80864 / 123201"
  by (simp add: calculateSimpleMACD_def calculateEMA_def unroll)

lemma bands_rally:
  "calculateSimpleBollinger (replicate 26 101 @ [100, 110])
     = \<lparr> upper = 507 / 5 + 2 * sqrt (197 / 50), lower = 507 / 5 - 2 * sqrt (197 / 50),
         middle = 507 / 5 \<rparr>"
  by (simp add: calculateSimpleBollinger_def calculateStandardDeviation_def unroll power2_eq_square)

lemma volume_flat28: "analyzeVolume (replicate 28 1000) = 1"
  by (simp add: analyzeVolume_def unroll)

lemma sqrt_rally: "110 > 507 / 5 + 2 * sqrt (197 / 50)"
proof -
  have "sqrt (197 / 50) < 2"
    by (rule real_less_lsqrt; simp add: power2_eq_square)
  then show ?thesis by linarith
qed

lemma rsi_plateau: "calculateSimpleRSI (replicate 27 110) 14 = 100"
  by (simp add: calculateSimpleRSI_def gains_losses_def rsi_push_def unroll)

lemma macd_plateau: "calculateSimpleMACD (replicate 27 110) = 0"
  by (simp add: calculateSimpleMACD_def calculateEMA_def unroll)

lemma bands_plateau:
  "calculateSimpleBollinger (replicate 27 110) = \<lparr> upper = 110, lower = 110, middle = 110 \<rparr>"
  by (simp add: calculateSimpleBollinger_def calculateStandardDeviation_def unroll power2_eq_square)

lemma analyze_dip:
  assumes "rsiPeriod this = 14" and "signalThreshold this = 1 / 4"
  shows "analyze this \<lparr> prices = replicate 26 101 @ [100], volumes = replicate 27 1000, timestamp = t \<rparr>
    = \<lparr> totalSignal = 3 / 10, recommend = rbuy,
        indicators = \<lparr> rsi = \<lparr> ivalue = 0, isignal = buy, iweight = 0.3 \<rparr>,
                       macd = \<lparr> ivalue = - (28 / 351), isignal = sell, iweight = 0.25 \<rparr>,
                       bollinger = \<lparr> ivalue = 100, isignal = buy, iweight = 0.25 \<rparr>,
                       volume = \<lparr> ivalue = 1, isignal = neutral, iweight = 0.2 \<rparr> \<rparr> \<rparr>"
proof -
  have b: "calculateBollingerBands (replicate 26 101 @ [100])
             = \<lparr> ivalue = 100, isignal = buy, iweight = 0.25 \<rparr>"
    using sqrt_dip by (simp add: calculateBollingerBands_def bands_dip Let_def nth_append)
  show ?thesis
    by (simp add: analyze_def assms calculateRSI_def rsi_dip calculateMACD_def macd_dip b
        calculateVolumeSignal_def volume_flat27 signalValue_def Let_def)
qed

lemma analyze_rally:
  assumes "rsiPeriod this = 14" and "signalThreshold this = 1 / 4"
  shows "analyze this \<lparr> prices = replicate 26 101 @ [100, 110], volumes = replicate 28 1000, timestamp = t \<rparr>
    = \<lparr> totalSignal = - (3 / 10), recommend = rsell,
        indicators = \<lparr> rsi = \<lparr> ivalue = 1000 / 11, isignal = sell, iweight = 0.3 \<rparr>,
                       macd = \<lparr> ivalue = 80864 / 123201, isignal = buy, iweight = 0.25 \<rparr>,
                       bollinger = \<lparr> ivalue = 110, isignal = sell, iweight = 0.25 \<rparr>,
                       volume = \<lparr> ivalue = 1, isignal = neutral, iweight = 0.2 \<rparr> \<rparr> \<rparr>"
proof -
  have b: "calculateBollingerBands (replicate 26 101 @ [100, 110])
             = \<lparr> ivalue = 110, isignal = sell, iweight = 0.25 \<rparr>"
    using sqrt_rally by (simp add: calculateBollingerBands_def bands_rally Let_def nth_append)
  show ?thesis
    by (simp add: analyze_def assms calculateRSI_def rsi_rally calculateMACD_def macd_rally b
        calculateVolumeSignal_def volume_flat28 signalValue_def Let_def)
qed

lemma analyze_plateau:
  assumes "rsiPeriod this = 14" and "signalThreshold this = 1 / 4"
  shows "analyze this \<lparr> prices = replicate 27 110, volumes = replicate 27 1000, timestamp = t \<rparr>
    = \<lparr> totalSignal = - (3 / 10), recommend = rsell,
        indicators = \<lparr> rsi = \<lparr> ivalue = 100, isignal = sell, iweight = 0.3 \<rparr>,
                       macd = \<lparr> ivalue = 0, isignal = neutral, iweight = 0.25 \<rparr>,
                       bollinger = \<lparr> ivalue = 110, isignal = neutral, iweight = 0.25 \<rparr>,
                       volume = \<lparr> ivalue = 1, isignal = neutral, iweight = 0.2 \<rparr> \<rparr> \<rparr>"
proof -
  have b: "calculateBollingerBands (replicate 27 110)
             = \<lparr> ivalue = 110, isignal = neutral, iweight = 0.25 \<rparr>"
    by (simp add: calculateBollingerBands_def bands_plateau Let_def)
  show ?thesis
    by (simp add: analyze_def assms calculateRSI_def rsi_plateau calculateMACD_def macd_plateau b
        calculateVolumeSignal_def volume_flat27 signalValue_def Let_def)
qed

lemma window_dip:
  "market_window dip 26
     = \<lparr> prices = replicate 26 101 @ [100], volumes = replicate 27 1000, timestamp = 93600000 \<rparr>"
  by (simp add: market_window_def dip_def candle_at_def unroll)

lemma window_dip_rally_26:
  "market_window dip_rally 26
     = \<lparr> prices = replicate 26 101 @ [100], volumes = replicate 27 1000, timestamp = 93600000 \<rparr>"
  by (simp add: market_window_def dip_rally_def candle_at_def unroll)

lemma window_dip_rally_27:
  "market_window dip_rally 27
     = \<lparr> prices = replicate 26 101 @ [100, 110], volumes = replicate 28 1000, timestamp = 97200000 \<rparr>"
  by (simp add: market_window_def dip_rally_def candle_at_def unroll)

lemma window_plateau:
  "market_window plateau 26
     = \<lparr> prices = replicate 27 110, volumes = replicate 27 1000, timestamp = 93600000 \<rparr>"
  by (simp add: market_window_def plateau_def candle_at_def unroll)

section \<open>Lemmas about the RSI\<close>





lemma round_even_of_int: "round_even (of_int n) = n"
  by (simp add: round_even_def)

lemma round_even_near:
  assumes "\<bar>y - of_int n\<bar> < 1 / 2"
  shows "round_even y = n"
proof (cases "of_int n \<le> y")
  case True
  with assms have "\<lfloor>y\<rfloor> = n" by (intro floor_unique) auto
  with assms True show ?thesis by (simp add: round_even_def Let_def)
next
  case False
  with assms have f: "\<lfloor>y\<rfloor> = n - 1" by (intro floor_unique) auto
  with assms False show ?thesis by (simp add: round_even_def Let_def)
qed

lemma nearest_zero: "nearest 0 = 0"
  by (simp add: nearest_def)




lemma exponent_binade:
  assumes "2 powr of_int k \<le> \<bar>x\<bar>" and "\<bar>x\<bar> < 2 powr (of_int k + 1)" and "- 1022 \<le> k"
  shows "exponent x = k"
proof -
  have pos: "0 < \<bar>x\<bar>"
    using assms(1) powr_gt_zero [of 2 "of_int k"] by linarith
  then have "\<lfloor>log 2 \<bar>x\<bar>\<rfloor> = k"
    using assms(1,2) by (simp add: floor_log_eq_powr_iff)
  then show ?thesis
    using assms(3) by (simp add: exponent_def)
qed

lemma nearest_binade:
  assumes "2 powr of_int k \<le> \<bar>x\<bar>" and "\<bar>x\<bar> < 2 powr (of_int k + 1)" and "- 1022 \<le> k"
  shows "nearest x = 2 powr of_int (k - 52) * of_int (round_even (x / 2 powr of_int (k - 52)))"
proof -
  have "0 < \<bar>x\<bar>"
    using assms(1) powr_gt_zero [of 2 "of_int k"] by linarith
  then have "x \<noteq> 0"
    by auto
  then show ?thesis
    by (simp add: nearest_def ulp_def exponent_binade [OF assms])
qed

lemma nearest_eval:
  assumes "2 powr of_int k \<le> \<bar>x\<bar>" and "\<bar>x\<bar> < 2 powr (of_int k + 1)" and "- 1022 \<le> k"
    and "\<bar>x / 2 powr of_int (k - 52) - of_int m\<bar> < 1 / 2"
  shows "nearest x = 2 powr of_int (k - 52) * of_int m"
  using nearest_binade [OF assms(1-3)] round_even_near [OF assms(4)] by simp











lemma nearest_coarse:
  assumes "2 ^ (n + 52) \<le> \<bar>x\<bar>" and "\<bar>x\<bar> < 2 ^ (n + 53)"
    and "\<bar>x / 2 ^ n - of_int m\<bar> < 1 / 2"
  shows "nearest x = 2 ^ n * of_int m"
proof -
  have p: "(2::real) powr of_int (int n + 52) = 2 ^ (n + 52)"
    "(2::real) powr (of_int (int n + 52) + 1) = 2 ^ (n + 53)"
    "(2::real) powr of_int (int n + 52 - 52) = 2 ^ n"
    by (simp_all add: powr_realpow [symmetric] add.commute)
  show ?thesis
    using nearest_eval [of "int n + 52" x m] assms by (simp only: p)
qed

lemma nearest_fine:
  assumes "2 ^ 52 \<le> \<bar>x\<bar> * 2 ^ n" and "\<bar>x\<bar> * 2 ^ n < 2 ^ 53" and "n \<le> 1074"
    and "\<bar>x * 2 ^ n - of_int m\<bar> < 1 / 2"
  shows "nearest x = of_int m / 2 ^ n"
proof -
  have oe: "(of_int (52 - int n) :: real) = 52 - real n"
    "(of_int (52 - int n - 52) :: real) = - real n"
    by simp_all
  have u: "(2::real) powr (- real n) = 1 / 2 ^ n"
    by (simp add: powr_minus powr_realpow inverse_eq_divide)
  have lo: "(2::real) powr (52 - real n) = 2 ^ 52 / 2 ^ n"
    by (simp add: powr_diff powr_realpow)
  have hi: "(2::real) powr (52 - real n + 1) = 2 ^ 53 / 2 ^ n"
    by (simp add: powr_diff powr_add powr_realpow)
  have a: "2 powr of_int (52 - int n) \<le> \<bar>x\<bar>"
    unfolding oe lo using assms(1) by (simp add: pos_divide_le_eq)
  have b: "\<bar>x\<bar> < 2 powr (of_int (52 - int n) + 1)"
    unfolding oe hi using assms(2) by (simp add: pos_less_divide_eq)
  have c: "- 1022 \<le> 52 - int n" using assms(3) by simp
  have d: "\<bar>x / 2 powr of_int (52 - int n - 52) - of_int m\<bar> < 1 / 2"
    unfolding oe u using assms(4) by simp
  show ?thesis
    using nearest_eval [OF a b c d] unfolding oe u by simp
qed

lemma in_range: "\<bar>y\<bar> < 2 ^ 1000 \<Longrightarrow> nearest x = y \<Longrightarrow> fl x = Some y"
  by (simp add: fl_def)

lemma sum_steps:
  "fl (1 - 2) = Some (- 1)"
  "fl (100000000000000000 - 1) = Some 100000000000000000"
  "fl (0 + 100000000000000000) = Some 100000000000000000"
  "fl (100000000000000000 / 2) = Some 50000000000000000"
  "fl (0 + 1) = Some 1"
  "fl (1 + 0) = Some 1"
  "fl (1 / 2) = Some (1 / 2)"
  "fl (50000000000000000 / (1 / 2)) = Some 100000000000000000"
  "fl (1 + 100000000000000000) = Some 100000000000000000"
proof -
  show "fl (1 - 2) = Some (- 1)"
    using nearest_fine [of "1 - 2" 52 "- (2 ^ 52)"] by (intro in_range) simp_all
  show "fl (100000000000000000 - 1) = Some 100000000000000000"
    using nearest_coarse [of 4 "100000000000000000 - 1" 6250000000000000]
    by (intro in_range) simp_all
  show "fl (0 + 100000000000000000) = Some 100000000000000000"
    using nearest_coarse [of 4 "0 + 100000000000000000" 6250000000000000]
    by (intro in_range) simp_all
  show "fl (100000000000000000 / 2) = Some 50000000000000000"
    using nearest_coarse [of 3 "100000000000000000 / 2" 6250000000000000]
    by (intro in_range) simp_all
  show "fl (0 + 1) = Some 1"
    using nearest_fine [of "0 + 1" 52 "2 ^ 52"] by (intro in_range) simp_all
  show "fl (1 + 0) = Some 1"
    using nearest_fine [of "1 + 0" 52 "2 ^ 52"] by (intro in_range) simp_all
  show "fl (1 / 2) = Some (1 / 2)"
    using nearest_fine [of "1 / 2" 53 "2 ^ 52"] by (intro in_range) simp_all
  show "fl (50000000000000000 / (1 / 2)) = Some 100000000000000000"
    using nearest_coarse [of 4 "50000000000000000 / (1 / 2)" 6250000000000000]
    by (intro in_range) simp_all
  show "fl (1 + 100000000000000000) = Some 100000000000000000"
    using nearest_coarse [of 4 "1 + 100000000000000000" 6250000000000000]
    by (intro in_range) simp_all
qed









section \<open>The runs over the three series\<close>

lemma quarter_fields:
  "rsiPeriod quarter = 14" "signalThreshold quarter = 1 / 4" "position quarter = none"
  "entryPrice quarter = 0" "positionSize quarter = 0" "minCandles quarter = 26"
  by (simp_all add: quarter_def WeightedStrategy_def minCandles_def)

lemma well_formed:
  "None \<notin> set dip" "None \<notin> set dip_rally" "None \<notin> set plateau"
  "length dip = 27" "length dip_rally = 28" "length plateau = 27"
  by (auto simp: dip_def dip_rally_def plateau_def candle_at_def)

lemma well_formed_prefix:
  "None \<notin> set (take n dip)" "None \<notin> set (take n dip_rally)" "None \<notin> set (take n plateau)"
  using well_formed(1-3) by (meson in_set_takeD)+

lemma traded_dip:
  assumes "rsiPeriod st = 14" "signalThreshold st = 1 / 4" "position st = none"
    "currentCapital st = 1000"
  shows "traded dip 26 st = opened st" "traded dip_rally 26 st = opened st"
  by (simp_all add: assms traded_def window_dip window_dip_rally_26 analyze_dip execute_def
      lastAnalysis_def buy_at_dip_def opened_def Let_def nth_append)

lemma traded_rally:
  assumes "rsiPeriod st = 14" "signalThreshold st = 1 / 4" "position st = long"
    "entryPrice st = 100" "positionSize st = 19 / 2"
  shows "traded dip_rally 27 st =
    st\<lparr> currentCapital := currentCapital st + 95,
        winningTrades := winningTrades st + 1,
        trades := trades st @ [sell_at_rally],
        position := none, positionSize := 0,
        maxCapital := max (maxCapital st) (currentCapital st + 95),
        maxDrawdown := max (maxDrawdown st)
          ((max (maxCapital st) (currentCapital st + 95) - (currentCapital st + 95))
             / max (maxCapital st) (currentCapital st + 95)) \<rparr>"
  by (simp add: assms traded_def window_dip_rally_27 analyze_rally execute_def
      lastAnalysis_def sell_at_rally_def Let_def nth_append)

lemma traded_plateau:
  assumes "rsiPeriod st = 14" "signalThreshold st = 1 / 4" "position st = long"
  shows "trades (traded plateau 26 st) = trades st @
      [\<lparr> t_timestamp = 93600000, t_type = Sell, t_price = 110,
         t_profit = Some ((110 - entryPrice st) * positionSize st),
         t_size = positionSize st,
         t_indicators = Some \<lparr> a_rsi = 100, a_macd = 0, a_bollingerPosition = 110,
                                a_volumeSignal = 1, a_totalSignal = - (3 / 10) \<rparr> \<rparr>]"
  by (simp add: assms traded_def window_plateau analyze_plateau execute_def
      lastAnalysis_def Let_def)

lemma backtest_array:
  "cs \<noteq> [] \<Longrightarrow>
   backtest this (Array cs) cap cb polls =
     (let st = run_loop this cs cap cb polls (length cs)
      in \<lparr> left = this\<lparr> position := position st, entryPrice := entryPrice st,
                            positionSize := positionSize st \<rparr>,
           returned = Inr (summary cap st), progress = emitted st \<rparr>)"
  by (simp add: backtest_def)

lemma backtest_result:
  assumes "returned (backtest this (Array cs) cap cb polls) = Inr r"
  shows "cs \<noteq> [] \<and> r = summary cap (run_loop this cs cap cb polls (length cs))"
  using assms by (cases "cs = []") (simp_all add: backtest_def Let_def)

lemma summary_fields:
  "r_equity (summary cap st) = equity st" "r_trades (summary cap st) = trades st"
  "r_totalTrades (summary cap st) = winningTrades st + losingTrades st"
  "r_winningTrades (summary cap st) = winningTrades st"
  "r_losingTrades (summary cap st) = losingTrades st"
  "r_profit (summary cap st) = currentCapital st - cap"
  "r_sharpeRatio (summary cap st) = sharpe (equity st)"
  "r_maxDrawdown (summary cap st) = maxDrawdown st * 100"
  "r_winRate (summary cap st) =
     (if winningTrades st + losingTrades st > 0
      then real (winningTrades st) / real (winningTrades st + losingTrades st) * 100 else 0)"
  by (simp_all add: summary_def Let_def)

lemma alternates_count:
  "alternates e ts \<Longrightarrow>
   length (filter (\<lambda>t. t = e) ts)
     = length (filter (\<lambda>t. t = other e) ts) + (if odd (length ts) then 1 else 0)"
proof (induction ts arbitrary: e)
  case Nil
  show ?case by simp
next
  case (Cons t ts)
  then have t: "t = e" and rest: "alternates (other e) ts" by simp_all
  have oo: "other (other e) = e" by (cases e) simp_all
  have ne: "e \<noteq> other e" by (cases e) simp_all
  from Cons.IH [OF rest] show ?case
    using ne by (simp add: t oo)
qed

lemma first_step:
  assumes "minCandles this = 26"
  shows "run_loop this cs cap cb polls 27 = loop_body cb cs cap polls 26 (initial_state this cap)"
proof -
  have "run_loop this cs cap cb polls (Suc 26)
      = loop_body cb cs cap polls 26 (run_loop this cs cap cb polls 26)"
    by (rule run_loop_Suc) (simp add: assms)
  moreover have "run_loop this cs cap cb polls 26 = initial_state this cap"
    by (rule run_loop_start) (simp add: assms)
  ultimately show ?thesis by simp
qed

lemma second_step:
  "run_loop quarter cs cap cb polls 28
     = loop_body cb cs cap polls 27 (run_loop quarter cs cap cb polls 27)"
proof -
  have "run_loop quarter cs cap cb polls (Suc 27)
      = loop_body cb cs cap polls 27 (run_loop quarter cs cap cb polls 27)"
    by (rule run_loop_Suc) (simp add: quarter_fields)
  then show ?thesis by simp
qed

lemma initial_quarter:
  "rsiPeriod (initial_state quarter cap) = 14"
  "signalThreshold (initial_state quarter cap) = 1 / 4"
  "position (initial_state quarter cap) = none"
  "currentCapital (initial_state quarter cap) = cap"
  by (simp_all add: initial_state_def quarter_fields)

lemma after_dip:
  assumes "cs = dip \<or> cs = dip_rally"
  shows "position (run_loop quarter cs 1000 cb polls 27) = long"
    "entryPrice (run_loop quarter cs 1000 cb polls 27) = 100"
    "positionSize (run_loop quarter cs 1000 cb polls 27) = 19 / 2"
    "trades (run_loop quarter cs 1000 cb polls 27) = [buy_at_dip]"
    "equity (run_loop quarter cs 1000 cb polls 27) = [1000, 1000]"
    "currentCapital (run_loop quarter cs 1000 cb polls 27) = 1000"
    "winningTrades (run_loop quarter cs 1000 cb polls 27) = 0"
    "losingTrades (run_loop quarter cs 1000 cb polls 27) = 0"
    "maxCapital (run_loop quarter cs 1000 cb polls 27) = 1000"
    "maxDrawdown (run_loop quarter cs 1000 cb polls 27) = 0"
    "rsiPeriod (run_loop quarter cs 1000 cb polls 27) = 14"
    "signalThreshold (run_loop quarter cs 1000 cb polls 27) = 1 / 4"
  using assms
  by (auto simp: first_step [OF quarter_fields(6)] loop_body_returns well_formed_prefix Let_def traded_dip
      initial_quarter opened_def initial_state_def quarter_fields)

lemma after_rally:
  "position (run_loop quarter dip_rally 1000 cb polls 28) = none"
  "entryPrice (run_loop quarter dip_rally 1000 cb polls 28) = 100"
  "positionSize (run_loop quarter dip_rally 1000 cb polls 28) = 0"
  "trades (run_loop quarter dip_rally 1000 cb polls 28) = [buy_at_dip, sell_at_rally]"
  "equity (run_loop quarter dip_rally 1000 cb polls 28) = [1000, 1000, 1095]"
  "currentCapital (run_loop quarter dip_rally 1000 cb polls 28) = 1095"
  "winningTrades (run_loop quarter dip_rally 1000 cb polls 28) = 1"
  "losingTrades (run_loop quarter dip_rally 1000 cb polls 28) = 0"
  "maxCapital (run_loop quarter dip_rally 1000 cb polls 28) = 1095"
  "maxDrawdown (run_loop quarter dip_rally 1000 cb polls 28) = 0"
  by (simp_all add: second_step loop_body_returns well_formed_prefix Let_def traded_rally
      after_dip)

lemma foldl_plus_map:
  "foldl (\<lambda>a b. a + f b) a xs = a + sum_list (map f (xs::real list))"
  by (induction xs arbitrary: a) (auto simp: add.assoc)

lemma returns_of_padded:
  assumes "eq \<noteq> []"
  shows "returns_of eq = 0 # step_returns eq"
proof -
  have "[0..<length eq] = 0 # [1..<length eq]"
    using assms by (simp add: upt_conv_Cons)
  then show ?thesis
    by (simp add: returns_of_def step_returns_def)
qed

lemma sharpe_annualised: "sharpe eq = annualised (returns_of eq)"
  by (simp add: sharpe_def annualised_def population_sd_def mean_def Let_def
      foldl_plus_sum foldl_plus_map [where f = "\<lambda>b. (b - c) ^ 2" for c])

lemma dip_rally_returned:
  "returned (backtest quarter (Array dip_rally) 1000 False never_paused) = Inr dip_rally_result"
  by (simp add: backtest_def dip_rally_result_def Let_def well_formed)

lemma dip_rally_fields:
  "r_equity dip_rally_result = [1000, 1000, 1095]"
  "r_trades dip_rally_result = [buy_at_dip, sell_at_rally]"
  "r_totalTrades dip_rally_result = 1"
  "r_winningTrades dip_rally_result = 1"
  "r_losingTrades dip_rally_result = 0"
  "r_winRate dip_rally_result = 100"
  "r_profit dip_rally_result = 95"
  "r_maxDrawdown dip_rally_result = 0"
  by (simp_all add: dip_rally_result_def summary_fields well_formed after_rally)

lemma padded_value: "annualised [0, 0, 19 / 200] = sqrt 126"
proof -
  have m: "mean [0, 0, 19 / 200] = 19 / 600"
    by (simp add: mean_def)
  have "population_sd [0, 0, 19 / 200] = sqrt (2 * (19 / 600)\<^sup>2)"
    by (simp add: population_sd_def m power2_eq_square)
  also have "\<dots> = sqrt 2 * (19 / 600)"
    by (simp add: real_sqrt_mult)
  finally have sd: "population_sd [0, 0, 19 / 200] = sqrt 2 * (19 / 600)" .
  have "sqrt 126 = sqrt (252 / 2)" by simp
  also have "\<dots> = sqrt 252 / sqrt 2" by (rule real_sqrt_divide)
  finally have "sqrt 252 / sqrt 2 = sqrt 126" by simp
  then show ?thesis
    by (simp add: annualised_def sd m)
qed

lemma unpadded_value: "annualised [0, 19 / 200] = sqrt 252"
proof -
  have m: "mean [0, 19 / 200] = 19 / 400"
    by (simp add: mean_def)
  have "population_sd [0, 19 / 200] = sqrt ((19 / 400)\<^sup>2)"
    by (simp add: population_sd_def m power2_eq_square)
  then have sd: "population_sd [0, 19 / 200] = 19 / 400"
    by simp
  show ?thesis
    by (simp add: annualised_def sd m)
qed

lemma returns_1095: "step_returns [1000, 1000, 1095] = [0, 19 / 200]"
  by (simp add: step_returns_def upt_rec)

lemma backtest_rejects:
  "(\<exists>e. returned (backtest this d cap cb polls) = Inl e)
     \<longleftrightarrow> (d = Nullish \<or> d = NonArray \<or> d = Array [])"
proof (cases d)
  case (Array cs)
  then show ?thesis by (cases "cs = []") (simp_all add: backtest_def Let_def)
qed (simp_all add: backtest_def)

lemma backtest_rejected_frame:
  assumes "returned (backtest this d cap cb polls) = Inl e"
  shows "left (backtest this d cap cb polls) = this \<and> progress (backtest this d cap cb polls) = []"
proof (cases d)
  case (Array cs)
  then show ?thesis using assms by (cases "cs = []") (simp_all add: backtest_def Let_def)
qed (simp_all add: backtest_def)

lemma stale_fields:
  "rsiPeriod stale = 14" "signalThreshold stale = 1 / 4" "position stale = long"
  "entryPrice stale = 100" "positionSize stale = 19 / 2" "minCandles stale = 26"
  by (simp_all add: stale_def quarter_def WeightedStrategy_def minCandles_def)

lemma dip_leaves_stale: "left (backtest quarter (Array dip) 1000 cb polls) = stale"
  by (simp add: backtest_def Let_def well_formed(1,4) after_dip [of dip, simplified] stale_def)

lemma plateau_sells:
  "trades (run_loop stale plateau 1000 cb polls 27) =
      [\<lparr> t_timestamp = 93600000, t_type = Sell, t_price = 110, t_profit = Some 95,
         t_size = 19 / 2,
         t_indicators = Some \<lparr> a_rsi = 100, a_macd = 0, a_bollingerPosition = 110,
                                a_volumeSignal = 1, a_totalSignal = - (3 / 10) \<rparr> \<rparr>]"
  by (simp add: first_step [OF stale_fields(6)] loop_body_returns well_formed_prefix Let_def
      traded_plateau initial_state_def stale_fields)

lemma plateau_returned:
  "returned (backtest stale (Array plateau) 1000 cb polls)
     = Inr (summary 1000 (run_loop stale plateau 1000 cb polls 27))"
  by (simp add: backtest_def Let_def well_formed(3,6))

lemma non_empty: "dip \<noteq> []" "dip_rally \<noteq> []" "plateau \<noteq> []"
  using well_formed(4-6) by auto

section \<open>The claims\<close>

text \<open>
  C1, as claimed: the reported Sharpe ratio is the mean of the per-step returns divided by
  their population standard deviation, times \<open>sqrt 252\<close>. It fails: the run over the
  dip and the rally has the equity curve 1000, 1000, 1095, whose two step returns give
  \<open>sqrt 252\<close>, while the engine reports \<open>sqrt 126\<close>.
\<close>

theorem sharpe_counterexample:
  "returned (backtest quarter (Array dip_rally) 1000 False never_paused) = Inr dip_rally_result
   \<and> r_equity dip_rally_result = [1000, 1000, 1095]
   \<and> 2 \<le> length (r_equity dip_rally_result)
   \<and> r_sharpeRatio dip_rally_result = sqrt 126
   \<and> annualised (step_returns (r_equity dip_rally_result)) = sqrt 252
   \<and> r_sharpeRatio dip_rally_result \<noteq> annualised (step_returns (r_equity dip_rally_result))"
proof -
  have s: "r_sharpeRatio dip_rally_result = sqrt 126"
    by (simp add: dip_rally_result_def summary_fields well_formed after_rally
        sharpe_annualised returns_of_padded returns_1095 padded_value)
  show ?thesis
    by (simp add: dip_rally_returned dip_rally_fields s returns_1095 unpadded_value)
qed

text \<open>
  C1, amended: for a completed run whose equity curve has at least two entries, none of
  them zero, the reported Sharpe ratio is taken over the sequence made of a leading 0 (the
  entry \<^verbatim>\<open>returns[0]\<close>) followed by the per-step returns: its mean divided by its
  population standard deviation, times \<open>sqrt 252\<close>, and 0 when that deviation is 0.
\<close>

theorem sharpe_of_padded_returns:
  assumes "returned (backtest this (Array cs) cap cb polls) = Inr r"
    and "2 \<le> length (r_equity r)"
    and "0 \<notin> set (r_equity r)"
  shows "r_sharpeRatio r = annualised (0 # step_returns (r_equity r))"
proof -
  have r: "r = summary cap (run_loop this cs cap cb polls (length cs))"
    using backtest_result [OF assms(1)] by simp
  have "r_equity r \<noteq> []"
    using assms(2) by auto
  then show ?thesis
    by (simp add: r summary_fields sharpe_annualised returns_of_padded)
qed

theorem sharpe_of_padded_returns_witness:
  "returned (backtest quarter (Array dip_rally) 1000 False never_paused) = Inr dip_rally_result
   \<and> 2 \<le> length (r_equity dip_rally_result)
   \<and> 0 \<notin> set (r_equity dip_rally_result)
   \<and> r_sharpeRatio dip_rally_result = annualised (0 # step_returns [1000, 1000, 1095])
   \<and> r_sharpeRatio dip_rally_result = sqrt 126"
proof -
  have a: "returned (backtest quarter (Array dip_rally) 1000 False never_paused)
             = Inr dip_rally_result"
    by (rule dip_rally_returned)
  have b: "2 \<le> length (r_equity dip_rally_result)"
    by (simp add: dip_rally_fields)
  have c: "0 \<notin> set (r_equity dip_rally_result)"
    by (simp add: dip_rally_fields)
  from sharpe_of_padded_returns [OF a b c] show ?thesis
    using a b c by (simp add: dip_rally_fields returns_1095 padded_value)
qed

text \<open>
  C2. For a non-empty candle series without \<^verbatim>\<open>null\<close> elements, of length at least
  \<open>max (rsiPeriod + 1) 26\<close>, \<^verbatim>\<open>backtest\<close> returns a result whose equity curve has
  \<open>1 + (length - max (rsiPeriod + 1) 26)\<close> entries, the first being the initial capital,
  and no step raises.
\<close>

theorem backtest_equity_length:
  assumes "cs \<noteq> []" and "None \<notin> set cs"
    and "nat (max (rsiPeriod this + 1) 26) \<le> length cs"
  shows "(\<exists>r. returned (backtest this (Array cs) cap cb polls) = Inr r
            \<and> length (r_equity r) = 1 + (length cs - nat (max (rsiPeriod this + 1) 26))
            \<and> r_equity r ! 0 = cap)
         \<and> (\<forall>i st. i < length cs \<longrightarrow> (\<exists>st'. process_candle cb cs cap i st = Inr st'))"
proof -
  have "None \<notin> set (take (Suc i) cs)" for i
    using assms(2) by (meson in_set_takeD)
  then have steps: "\<forall>i st. i < length cs \<longrightarrow> (\<exists>st'. process_candle cb cs cap i st = Inr st')"
    by (simp add: process_candle_returns)
  have "length (equity (run_loop this cs cap cb polls (length cs)))
          = 1 + (length cs - minCandles this)"
    using assms(2) by (simp add: equity_length_run)
  moreover have "equity (run_loop this cs cap cb polls (length cs)) ! 0 = cap"
    by (simp add: equity_head_run)
  ultimately show ?thesis
    using assms(1) steps by (simp add: backtest_array summary_fields Let_def minCandles_def)
qed

theorem backtest_equity_length_witness:
  "dip_rally \<noteq> [] \<and> None \<notin> set dip_rally
   \<and> nat (max (rsiPeriod quarter + 1) 26) \<le> length dip_rally
   \<and> (\<exists>r. returned (backtest quarter (Array dip_rally) 1000 False never_paused) = Inr r
          \<and> length (r_equity r) = 3 \<and> r_equity r ! 0 = 1000)"
proof -
  have a: "dip_rally \<noteq> []" by (rule non_empty)
  have b: "None \<notin> set dip_rally" by (rule well_formed)
  have c: "nat (max (rsiPeriod quarter + 1) 26) \<le> length dip_rally"
    by (simp add: quarter_fields well_formed)
  from backtest_equity_length [OF a b c, of 1000 False never_paused] show ?thesis
    using a b c by (simp add: quarter_fields well_formed numeral_3_eq_3)
qed

text \<open>
  C3. In a run started flat, after every iteration the trade log alternates, beginning
  with a buy; every sell directly follows a buy; the buys exceed the sells by one when the
  engine is long and by none when it is flat, so at most one position is open; and an
  iteration appends a buy only while flat and a sell only while long.
\<close>

theorem one_position_alternating_log:
  assumes "position this = none" and "minCandles this \<le> i" and "i < length cs"
  shows "(let st = run_loop this cs cap cb polls i;
              st' = loop_body cb cs cap polls i st;
              ts = map t_type (trades st')
          in alternates Buy ts
          \<and> (\<forall>k < length ts. ts ! k = Sell \<longrightarrow> 0 < k \<and> ts ! (k - 1) = Buy)
          \<and> length (filter (\<lambda>t. t = Buy) ts)
               = length (filter (\<lambda>t. t = Sell) ts) + (if position st' = long then 1 else 0)
          \<and> (trades st' = trades st
              \<or> (\<exists>t. trades st' = trades st @ [t] \<and> t_type t = Buy
                      \<and> position st = none \<and> position st' = long)
              \<or> (\<exists>t. trades st' = trades st @ [t] \<and> t_type t = Sell
                      \<and> position st = long \<and> position st' = none)))
         \<and> (\<forall>r. returned (backtest this (Array cs) cap cb polls) = Inr r
                \<longrightarrow> alternates Buy (map t_type (r_trades r)))"
proof -
  define st where "st = run_loop this cs cap cb polls i"
  define st' where "st' = loop_body cb cs cap polls i st"
  define ts where "ts = map t_type (trades st')"
  have "flat_or_long st"
    unfolding st_def using assms(1,3) by (simp add: flat_or_long_run)
  then have "flat_or_long st'"
    unfolding st'_def using assms(3) by (rule flat_or_long_step)
  then have alt: "alternates Buy ts" and pos: "position st' = long \<longleftrightarrow> odd (length ts)"
    by (simp_all add: flat_or_long_def ts_def)
  have sell: "0 < k \<and> ts ! (k - 1) = Buy" if "k < length ts" "ts ! k = Sell" for k
  proof -
    from alternates_nth [OF alt that(1)] that(2) have odd: "odd k"
      by (auto split: if_splits)
    then have "0 < k" "even (k - 1)" "k - 1 < length ts"
      using that(1) by (auto elim: oddE)
    with alternates_nth [OF alt, of "k - 1"] show ?thesis by simp
  qed
  have count: "length (filter (\<lambda>t. t = Buy) ts)
      = length (filter (\<lambda>t. t = Sell) ts) + (if position st' = long then 1 else 0)"
    using alternates_count [OF alt] pos by simp
  have step: "trades st' = trades st
      \<or> (\<exists>t. trades st' = trades st @ [t] \<and> t_type t = Buy
              \<and> position st = none \<and> position st' = long)
      \<or> (\<exists>t. trades st' = trades st @ [t] \<and> t_type t = Sell
              \<and> position st = long \<and> position st' = none)"
    using loop_body_cases [OF st'_def assms(3)] by blast
  have "flat_or_long (run_loop this cs cap cb polls (length cs))"
    using assms(1) by (simp add: flat_or_long_run)
  then have result: "\<forall>r. returned (backtest this (Array cs) cap cb polls) = Inr r
      \<longrightarrow> alternates Buy (map t_type (r_trades r))"
    using backtest_result [of this cs cap cb polls]
    by (auto simp: summary_fields flat_or_long_def)
  show ?thesis
    using alt sell count step result
    unfolding Let_def st_def [symmetric] st'_def [symmetric] ts_def [symmetric]
    by blast
qed

theorem one_position_alternating_log_witness:
  "position quarter = none \<and> minCandles quarter \<le> 27 \<and> 27 < length dip_rally
   \<and> map t_type (trades (loop_body False dip_rally 1000 never_paused 27
                            (run_loop quarter dip_rally 1000 False never_paused 27)))
        = [Buy, Sell]
   \<and> alternates Buy [Buy, Sell]
   \<and> position (run_loop quarter dip_rally 1000 False never_paused 27) = long
   \<and> position (loop_body False dip_rally 1000 never_paused 27
                  (run_loop quarter dip_rally 1000 False never_paused 27)) = none"
proof -
  have a: "position quarter = none" by (rule quarter_fields)
  have b: "minCandles quarter \<le> 27" by (simp add: quarter_fields)
  have c: "27 < length dip_rally" by (simp add: well_formed)
  from one_position_alternating_log [OF a b c, of 1000 False never_paused] show ?thesis
    using a b c
    by (simp add: second_step [symmetric] after_rally after_dip buy_at_dip_def sell_at_rally_def)
qed

text \<open>
  C4. A step that does not raise, taken while long with the total signal below minus the
  threshold, closes the position at the close of its candle: the profit
  \<open>(exitPrice - entryPrice) * size\<close> is added to the capital, the trade counts as winning
  exactly when the profit is positive and as losing otherwise, a sell carrying the profit
  is appended, the engine is flat, and the maximal drawdown becomes the maximum of its
  previous value and \<open>(peak - capital) / peak\<close> for the running peak. The instance below is the
  scenario with capital 1000, a buy at 100 of size 9.5 and a sell at 110: profit 95,
  capital 1095, one winning trade, no losing trade, win rate 100.
\<close>

theorem sell_closes_position:
  assumes "i < length cs" and "None \<notin> set (take (Suc i) cs)"
    and "position st = long"
    and "totalSignal (analyze st (market_window cs i)) < - signalThreshold st"
  shows "let st' = loop_body cb cs cap polls i st;
             exitPrice = c_close (the (cs ! i));
             profit = (exitPrice - entryPrice st) * positionSize st
         in currentCapital st' = currentCapital st + profit
          \<and> winningTrades st' = winningTrades st + (if profit > 0 then 1 else 0)
          \<and> losingTrades st' = losingTrades st + (if profit > 0 then 0 else 1)
          \<and> (\<exists>t. trades st' = trades st @ [t] \<and> t_type t = Sell \<and> t_price t = exitPrice
                  \<and> t_profit t = Some profit \<and> t_size t = positionSize st)
          \<and> position st' = none
          \<and> maxCapital st' = max (maxCapital st) (currentCapital st')
          \<and> maxDrawdown st'
               = max (maxDrawdown st) ((maxCapital st' - currentCapital st') / maxCapital st')
          \<and> equity st' = equity st @ [currentCapital st']"
  using assms(2-4)
  by (simp add: loop_body_returns traded_def execute_def Let_def
      current_price [OF assms(1), unfolded One_nat_def] One_nat_def)

theorem sell_closes_position_witness:
  "27 < length dip_rally \<and> None \<notin> set (take (Suc 27) dip_rally)
   \<and> position (run_loop quarter dip_rally 1000 False never_paused 27) = long
   \<and> entryPrice (run_loop quarter dip_rally 1000 False never_paused 27) = 100
   \<and> positionSize (run_loop quarter dip_rally 1000 False never_paused 27) = 19 / 2
   \<and> currentCapital (run_loop quarter dip_rally 1000 False never_paused 27) = 1000
   \<and> totalSignal (analyze (run_loop quarter dip_rally 1000 False never_paused 27)
                     (market_window dip_rally 27))
        < - signalThreshold (run_loop quarter dip_rally 1000 False never_paused 27)
   \<and> c_close (the (dip_rally ! 27)) = 110
   \<and> currentCapital (run_loop quarter dip_rally 1000 False never_paused 28) = 1095
   \<and> returned (backtest quarter (Array dip_rally) 1000 False never_paused) = Inr dip_rally_result
   \<and> r_trades dip_rally_result = [buy_at_dip, sell_at_rally]
   \<and> t_price buy_at_dip = 100 \<and> t_size buy_at_dip = 19 / 2
   \<and> t_price sell_at_rally = 110 \<and> t_profit sell_at_rally = Some 95
   \<and> r_profit dip_rally_result = 95
   \<and> r_winningTrades dip_rally_result = 1 \<and> r_losingTrades dip_rally_result = 0
   \<and> r_winRate dip_rally_result = 100"
proof -
  let ?st = "run_loop quarter dip_rally 1000 False never_paused 27"
  have a: "27 < length dip_rally" by (simp add: well_formed)
  have b: "None \<notin> set (take (Suc 27) dip_rally)" by (rule well_formed_prefix)
  have c: "position ?st = long" by (simp add: after_dip)
  have d: "totalSignal (analyze ?st (market_window dip_rally 27)) < - signalThreshold ?st"
    by (simp add: window_dip_rally_27 analyze_rally after_dip)
  have e: "c_close (the (dip_rally ! 27)) = 110"
    by (simp add: dip_rally_def candle_at_def)
  from sell_closes_position [OF a b c d, of False 1000 never_paused] show ?thesis
    using a b c d e
    by (simp add: second_step [symmetric] after_dip after_rally dip_rally_returned
        dip_rally_fields buy_at_dip_def sell_at_rally_def)
qed




text \<open>
  C6. The four indicator weights are 0.30, 0.25, 0.25 and 0.20 and sum to 1; the total
  signal is the sum over the four indicators of the weight times +1 (buy), -1 (sell) or 0
  (neutral), and lies between -1 and 1.
\<close>

theorem analyze_weights_and_total:
  "iweight (rsi (indicators (analyze this d))) = 0.3
   \<and> iweight (macd (indicators (analyze this d))) = 0.25
   \<and> iweight (bollinger (indicators (analyze this d))) = 0.25
   \<and> iweight (volume (indicators (analyze this d))) = 0.2
   \<and> iweight (rsi (indicators (analyze this d))) + iweight (macd (indicators (analyze this d)))
       + iweight (bollinger (indicators (analyze this d)))
       + iweight (volume (indicators (analyze this d))) = 1
   \<and> totalSignal (analyze this d) =
       signalValue (rsi (indicators (analyze this d))) * iweight (rsi (indicators (analyze this d)))
       + signalValue (macd (indicators (analyze this d))) * iweight (macd (indicators (analyze this d)))
       + signalValue (bollinger (indicators (analyze this d))) * iweight (bollinger (indicators (analyze this d)))
       + signalValue (volume (indicators (analyze this d))) * iweight (volume (indicators (analyze this d)))
   \<and> - 1 \<le> totalSignal (analyze this d) \<and> totalSignal (analyze this d) \<le> 1"
  by (simp add: analyze_def Let_def calculateRSI_def calculateMACD_def
      calculateBollingerBands_def calculateVolumeSignal_def signalValue_def)

theorem analyze_weights_and_total_witness:
  "totalSignal (analyze (WeightedStrategy 14 (1 / 4)) (market_window dip 26)) = 3 / 10
   \<and> - 1 \<le> totalSignal (analyze (WeightedStrategy 14 (1 / 4)) (market_window dip 26))
   \<and> totalSignal (analyze (WeightedStrategy 14 (1 / 4)) (market_window dip 26)) \<le> 1"
  using analyze_weights_and_total [of "WeightedStrategy 14 (1 / 4)" "market_window dip 26"]
  by (simp add: window_dip analyze_dip WeightedStrategy_def)

text \<open>
  C7. Invalid data, and only invalid data, is to be rejected with the invalid-input error
  of the guard. For \<^verbatim>\<open>null\<close> or \<^verbatim>\<open>undefined\<close> the logging
  statement before the guard reads \<^verbatim>\<open>data.length\<close> and raises a TypeError instead; any
  other value that is not an array, and the empty array, reach the guard.
\<close>

theorem nullish_data_raises_type_error:
  "returned (backtest this Nullish cap cb polls) = Inl TypeError
   \<and> returned (backtest this Nullish cap cb polls) \<noteq> Inl InvalidHistoricalData
   \<and> returned (backtest this NonArray cap cb polls) = Inl InvalidHistoricalData
   \<and> returned (backtest this (Array []) cap cb polls) = Inl InvalidHistoricalData"
  by (simp add: backtest_def)

theorem nullish_data_raises_type_error_witness:
  "returned (backtest quarter Nullish 1000 False never_paused) = Inl TypeError
   \<and> left (backtest quarter Nullish 1000 False never_paused) = quarter
   \<and> progress (backtest quarter Nullish 1000 False never_paused) = []"
  using nullish_data_raises_type_error [of quarter 1000 False never_paused]
  by (simp add: backtest_rejected_frame)

text \<open>
  C8. With a callback supplied, an iteration at index \<open>i\<close> that does not raise passes
  to the callback the snapshots of the pause loop, all marked paused, and then the
  snapshot of the step, not marked paused, if and only if \<open>i\<close> is a multiple of 50 or
  the trade log is non-empty after the step; the log never shrinks, so from the first
  trade on every such iteration emits.
\<close>

theorem progress_emission:
  assumes "cb" and "i < length cs" and "None \<notin> set (take (Suc i) cs)"
  shows "let st' = loop_body cb cs cap polls i st;
             snap = step_progress cs cap i (lastAnalysis (analyze st (market_window cs i))) st'
         in emitted st' = emitted st @ replicate (polls i) (paused_progress cs cap i st)
                @ (if i mod 50 = 0 \<or> trades st' \<noteq> [] then [snap] else [])
          \<and> p_isPaused (paused_progress cs cap i st)
          \<and> \<not> p_isPaused snap \<and> p_currentCandle snap = i
          \<and> p_trades snap = trades st' \<and> p_equity snap = equity st'
          \<and> ((\<exists>p \<in> set (drop (length (emitted st)) (emitted st')). \<not> p_isPaused p)
               \<longleftrightarrow> (i mod 50 = 0 \<or> trades st' \<noteq> []))
          \<and> (trades st \<noteq> [] \<longrightarrow> trades st' \<noteq> [])"
proof -
  define st' where "st' = loop_body cb cs cap polls i st"
  define snap where
    "snap = step_progress cs cap i (lastAnalysis (analyze st (market_window cs i))) st'"
  have e: "emitted st' = emitted st @ replicate (polls i) (paused_progress cs cap i st)
                @ (if i mod 50 = 0 \<or> trades st' \<noteq> [] then [snap] else [])"
    using assms by (simp add: st'_def snap_def loop_body_returns Let_def step_progress_def)
  have p: "p_isPaused (paused_progress cs cap i st)"
    by (simp add: paused_progress_def)
  have s: "\<not> p_isPaused snap" "p_currentCandle snap = i" "p_trades snap = trades st'"
    "p_equity snap = equity st'"
    by (simp_all add: snap_def step_progress_def)
  have iff: "(\<exists>p \<in> set (drop (length (emitted st)) (emitted st')). \<not> p_isPaused p)
               \<longleftrightarrow> (i mod 50 = 0 \<or> trades st' \<noteq> [])"
    using p s(1) by (auto simp: e)
  have mono: "trades st \<noteq> [] \<longrightarrow> trades st' \<noteq> []"
    using loop_body_cases [OF st'_def assms(2)] by auto
  show ?thesis
    using e p s iff mono unfolding Let_def st'_def [symmetric] snap_def [symmetric] by blast
qed

theorem progress_emission_witness:
  "26 < length dip \<and> None \<notin> set (take (Suc 26) dip) \<and> (26::nat) mod 50 \<noteq> 0
   \<and> trades (loop_body True dip 1000 never_paused 26 (initial_state quarter 1000)) = [buy_at_dip]
   \<and> map p_currentCandle (emitted (loop_body True dip 1000 never_paused 26 (initial_state quarter 1000)))
        = [26]
   \<and> map p_isPaused (emitted (loop_body True dip 1000 never_paused 26 (initial_state quarter 1000)))
        = [False]
   \<and> map p_trades (emitted (loop_body True dip 1000 never_paused 26 (initial_state quarter 1000)))
        = [[buy_at_dip]]"
proof -
  have a: "26 < length dip" by (simp add: well_formed)
  have b: "None \<notin> set (take (Suc 26) dip)" by (rule well_formed_prefix)
  have t: "trades (loop_body True dip 1000 never_paused 26 (initial_state quarter 1000)) = [buy_at_dip]"
    using after_dip(4) [of dip True never_paused] by (simp add: first_step [OF quarter_fields(6)])
  from progress_emission [OF TrueI a b, of 1000 never_paused "initial_state quarter 1000"]
  show ?thesis
    using a b t
    by (simp add: Let_def never_paused_def step_progress_def) (simp add: initial_state_def)
qed

text \<open>
  C9. A run starts from the position, entry price and position size of the instance.
  The run over the dip leaves the instance long at 100 with size 9.5, and a second run on
  that instance, over the plateau, logs a sell as its only trade, with profit 95.
\<close>

theorem second_run_starts_long:
  "position (initial_state this cap) = position this
   \<and> entryPrice (initial_state this cap) = entryPrice this
   \<and> positionSize (initial_state this cap) = positionSize this
   \<and> left (backtest quarter (Array dip) 1000 cb polls) = stale
   \<and> position stale = long \<and> entryPrice stale = 100 \<and> positionSize stale = 19 / 2
   \<and> (\<exists>r. returned (backtest stale (Array plateau) 1000 cb polls) = Inr r
          \<and> map t_type (r_trades r) = [Sell]
          \<and> map t_profit (r_trades r) = [Some 95])"
proof -
  have "position (initial_state this cap) = position this
      \<and> entryPrice (initial_state this cap) = entryPrice this
      \<and> positionSize (initial_state this cap) = positionSize this"
    by (simp add: initial_state_def)
  moreover have "map t_type (r_trades (summary 1000 (run_loop stale plateau 1000 cb polls 27))) = [Sell]
      \<and> map t_profit (r_trades (summary 1000 (run_loop stale plateau 1000 cb polls 27))) = [Some 95]"
    by (simp add: summary_fields plateau_sells)
  ultimately show ?thesis
    by (simp add: dip_leaves_stale plateau_returned stale_fields)
qed

theorem second_run_starts_long_witness:
  "left (backtest quarter (Array dip) 1000 False never_paused) = stale
   \<and> position stale = long
   \<and> (\<exists>r. returned (backtest stale (Array plateau) 1000 False never_paused) = Inr r
          \<and> map t_type (r_trades r) = [Sell]
          \<and> map t_profit (r_trades r) = [Some 95])"
  using second_run_starts_long [of quarter 1000 False never_paused]
  by (elim conjE) (intro conjI; assumption)

text \<open>
  C10. In the result, \<^verbatim>\<open>totalTrades\<close> is \<^verbatim>\<open>winningTrades + losingTrades\<close> and is the
  number of sells in the trade log; the profit is the sum of the profits of the sells and
  the win rate is taken over the sells; an iteration taken while flat, whether it buys or
  not, changes neither the capital nor the counters and appends the unchanged capital to
  the equity curve.
\<close>

theorem total_trades_counts_sells:
  assumes "returned (backtest this (Array cs) cap cb polls) = Inr r"
  shows "r_totalTrades r = r_winningTrades r + r_losingTrades r
       \<and> r_totalTrades r = length (sells (r_trades r))
       \<and> r_profit r = realised (r_trades r)
       \<and> r_winRate r = (if sells (r_trades r) = [] then 0
                          else real (r_winningTrades r) / real (length (sells (r_trades r))) * 100)
       \<and> (\<forall>i st. i < length cs \<and> position st = none \<longrightarrow>
            (let st' = loop_body cb cs cap polls i st
             in currentCapital st' = currentCapital st
              \<and> winningTrades st' = winningTrades st \<and> losingTrades st' = losingTrades st
              \<and> (equity st' = equity st \<or> equity st' = equity st @ [currentCapital st])))"
proof -
  define st where "st = run_loop this cs cap cb polls (length cs)"
  have r: "r = summary cap st"
    using backtest_result [OF assms] by (simp add: st_def)
  have acc: "accounted cap st"
    by (simp add: st_def accounted_run)
  have flat: "currentCapital (loop_body cb cs cap polls i s) = currentCapital s
       \<and> winningTrades (loop_body cb cs cap polls i s) = winningTrades s
       \<and> losingTrades (loop_body cb cs cap polls i s) = losingTrades s
       \<and> (equity (loop_body cb cs cap polls i s) = equity s
          \<or> equity (loop_body cb cs cap polls i s) = equity s @ [currentCapital s])"
    if "i < length cs" "position s = none" for i s
  proof -
    have c: "currentCapital (loop_body cb cs cap polls i s) = currentCapital s
       \<and> winningTrades (loop_body cb cs cap polls i s) = winningTrades s
       \<and> losingTrades (loop_body cb cs cap polls i s) = losingTrades s"
      using loop_body_cases [OF refl that(1), of cb cap polls s] that(2) by auto
    then show ?thesis
      by (simp add: loop_body_equity)
  qed
  show ?thesis
    using acc flat by (simp add: r summary_fields accounted_def Let_def)
qed

theorem total_trades_counts_sells_witness:
  "(\<exists>r. returned (backtest quarter (Array dip) 1000 False never_paused) = Inr r
        \<and> r_trades r = [buy_at_dip] \<and> length (r_trades r) = 1 \<and> sells (r_trades r) = []
        \<and> r_totalTrades r = 0 \<and> r_equity r = [1000, 1000] \<and> r_profit r = 0
        \<and> r_winRate r = 0)"
proof -
  let ?r = "summary 1000 (run_loop quarter dip 1000 False never_paused 27)"
  have a: "returned (backtest quarter (Array dip) 1000 False never_paused) = Inr ?r"
    by (simp add: backtest_def Let_def well_formed)
  have s: "sells [buy_at_dip] = []"
    by (simp add: sells_def buy_at_dip_def)
  from total_trades_counts_sells [OF a] show ?thesis
    using a by (simp add: summary_fields after_dip s)
qed

end
